theory Spec2Isabelle
  imports Complex_Main
begin

section \<open>Python values: exceptions and floats\<close>

text \<open>
  The pricing module \<^verbatim>\<open>src/nbs/pricing.py\<close> is a thin layer of Python over two
  libraries, QuantLib (dates, market objects and the finite-difference engine) and SciPy
  (the root finder). The model follows the Python statement by statement and takes the
  calls into the two libraries, and the rounding of float arithmetic, as parameters:
  every theorem below holds for whatever the libraries compute and wherever they fail.
  Two things are taken for granted of them: a call into QuantLib reads the settings of
  the process and does not write them, and the root finder evaluates the objective a
  finite number of times and lets what the objective raises pass.

  Exceptions are values, named by their class. \<^verbatim>\<open>NotImplementedError\<close> and
  \<^verbatim>\<open>RecursionError\<close> are the built-in classes derived from \<^verbatim>\<open>RuntimeError\<close>;
  \<open>RuntimeErrorSubclass\<close> stands for any other class derived from it, as a library may
  define, and \<open>OtherException\<close> for any other class that is not. \<^verbatim>\<open>ValueError\<close> and
  \<^verbatim>\<open>OverflowError\<close> are what Python's \<^verbatim>\<open>int()\<close> raises on a float that has no
  integer value.
\<close>

datatype error =
  RuntimeError
| NotImplementedError
| RecursionError
| RuntimeErrorSubclass string
| ValueError
| OverflowError
| TypeError
| OtherException string

text \<open>
  \<^verbatim>\<open>isinstance(e, RuntimeError)\<close>: what a clause \<^verbatim>\<open>except RuntimeError\<close> intercepts is
  the class and every class derived from it.
\<close>

fun is_RuntimeError :: "error \<Rightarrow> bool" where
  "is_RuntimeError RuntimeError = True"
| "is_RuntimeError NotImplementedError = True"
| "is_RuntimeError RecursionError = True"
| "is_RuntimeError (RuntimeErrorSubclass name) = True"
| "is_RuntimeError ValueError = False"
| "is_RuntimeError OverflowError = False"
| "is_RuntimeError TypeError = False"
| "is_RuntimeError (OtherException name) = False"

text \<open>
  A Python float is a finite value, an infinity or a NaN. \<open>Fin\<close> carries the finite
  doubles as the reals they denote.
\<close>

datatype pyfloat = Fin real | PosInf | NegInf | NaN

text \<open>
  Python's \<^verbatim>\<open>int(x)\<close> on a float: truncation toward zero; \<^verbatim>\<open>OverflowError\<close> on an
  infinity, \<^verbatim>\<open>ValueError\<close> on a NaN.
\<close>

fun py_int :: "pyfloat \<Rightarrow> error + int" where
  "py_int (Fin r) = Inr (if 0 \<le> r then \<lfloor>r\<rfloor> else \<lceil>r\<rceil>)"
| "py_int PosInf = Inl OverflowError"
| "py_int NegInf = Inl OverflowError"
| "py_int NaN = Inl ValueError"

section \<open>The libraries\<close>

text \<open>
  QuantLib dates are kept symbolic: \<open>Date d m y\<close> is \<^verbatim>\<open>ql.Date(d, m, y)\<close> and
  \<open>PlusDays d n\<close> is the date \<open>n\<close> days after \<open>d\<close>.
\<close>

datatype qldate = Date nat nat nat | PlusDays qldate int

text \<open>
  \<^verbatim>\<open>ql.Settings.instance()\<close> is one object per process. Its evaluation date is the
  field the pricer writes; whatever else it holds is the record's extension.
\<close>

record settings =
  evaluationDate :: qldate

text \<open>
  The market objects of lines 29 to 43: the quote of the spot, the two flat curves, the
  flat volatility, all anchored at the calculation date, and the payoff of the call.
\<close>

record market =
  reference_date :: qldate
  spot_quote :: pyfloat
  risk_free :: pyfloat
  dividend_yield :: pyfloat
  black_vol :: pyfloat
  payoff_strike :: pyfloat

text \<open>
  What the engine is built from and asked to value on lines 56 to 64: the market, the
  exercise window, the dividend schedule and the resolution.
\<close>

record fd_request =
  market_data :: market
  earliest_exercise :: qldate
  latest_exercise :: qldate
  dividendSchedule :: "(pyfloat \<times> qldate) list"
  timeSteps :: nat
  gridPoints :: nat

text \<open>
  \<^verbatim>\<open>scipy.optimize.newton(func, x0, ..., tol=..., maxiter=..., ...)\<close>: an optional
  argument the caller leaves out is \<open>None\<close> here, and the library's default applies.
\<close>

record newton_options =
  tol :: "pyfloat option"
  maxiter :: "int option"

text \<open>
  A root finder is a strategy: it returns a float, raises, or asks for the objective at
  a point and goes on from the value it gets. It does not intercept what the objective
  raises.
\<close>

datatype root_finder =
  Return pyfloat
| Raise error
| Call pyfloat "pyfloat \<Rightarrow> root_finder"

text \<open>
  The environment of the module. The float product and difference are the machine's,
  rounding included. The calls into QuantLib are taken in the order of the source, each
  under the settings of the process, each free to fail:
  \<^item> \<open>ql_market\<close>, lines 29 to 43, builds the market objects and the payoff;
  \<^item> \<open>ql_date_plus d n\<close> is \<^verbatim>\<open>d + ql.Period(n, ql.Days)\<close>, lines 45 and 54;
  \<^item> \<open>ql_option\<close>, lines 44 to 52, builds the exercise from its two dates, the option
    and the process;
  \<^item> \<open>ql_npv\<close>, lines 56 to 64, builds the dividend schedule and the engine and
    computes the value.

  \<open>None\<close> is a call that built its objects. \<open>newton\<close> is SciPy's.
\<close>

record 'z env =
  fmul :: "pyfloat \<Rightarrow> pyfloat \<Rightarrow> pyfloat"
  fsub :: "pyfloat \<Rightarrow> pyfloat \<Rightarrow> pyfloat"
  ql_market :: "'z settings_scheme \<Rightarrow> market \<Rightarrow> error option"
  ql_date_plus :: "'z settings_scheme \<Rightarrow> qldate \<Rightarrow> int \<Rightarrow> error + qldate"
  ql_option :: "'z settings_scheme \<Rightarrow> market \<Rightarrow> qldate \<Rightarrow> qldate \<Rightarrow> error option"
  ql_npv :: "'z settings_scheme \<Rightarrow> fd_request \<Rightarrow> error + pyfloat"
  newton :: "newton_options \<Rightarrow> pyfloat \<Rightarrow> root_finder"

section \<open>The pricer\<close>

text \<open>\<^verbatim>\<open>int(t * 365)\<close>, lines 45 and 54.\<close>

definition to_days :: "'z env \<Rightarrow> pyfloat \<Rightarrow> error + int" where
  "to_days E t = py_int (fmul E t (Fin 365))"

text \<open>\<^verbatim>\<open>d + ql.Period(int(t * 365), ql.Days)\<close>, lines 45 and 54.\<close>

definition date_after :: "'z env \<Rightarrow> 'z settings_scheme \<Rightarrow> qldate \<Rightarrow> pyfloat \<Rightarrow> error + qldate" where
  "date_after E s d t =
     (case to_days E t of
        Inl e \<Rightarrow> Inl e
      | Inr n \<Rightarrow> ql_date_plus E s d n)"

text \<open>
  Line 54, the list comprehension over \<^verbatim>\<open>dividend_times\<close>: every time is turned
  into a date, left to right, and the first one that raises ends the call.
\<close>

fun dividend_dates_ql ::
  "'z env \<Rightarrow> 'z settings_scheme \<Rightarrow> qldate \<Rightarrow> pyfloat list \<Rightarrow> error + qldate list" where
  "dividend_dates_ql E s d [] = Inr []"
| "dividend_dates_ql E s d (t # ts) =
     (case date_after E s d t of
        Inl e \<Rightarrow> Inl e
      | Inr x \<Rightarrow>
          (case dividend_dates_ql E s d ts of
             Inl e \<Rightarrow> Inl e
           | Inr ds \<Rightarrow> Inr (x # ds)))"

text \<open>
  Lines 56 to 59: \<^verbatim>\<open>zip\<close> stops at the shorter list; each pair becomes
  \<^verbatim>\<open>FixedDividend(div, date)\<close>.
\<close>

definition dividend_schedule :: "qldate list \<Rightarrow> pyfloat list \<Rightarrow> (pyfloat \<times> qldate) list" where
  "dividend_schedule dates dividends = map (\<lambda>(date, amount). (amount, date)) (zip dates dividends)"

definition calculation_date :: qldate where
  "calculation_date = Date 1 1 2024"

text \<open>
  \<^verbatim>\<open>price_american_call_pde\<close>, lines 6 to 64. The result is the returned float or the
  exception, together with the settings the call leaves behind.
\<close>

definition price_american_call_pde ::
  "'z env \<Rightarrow> 'z settings_scheme \<Rightarrow> pyfloat \<Rightarrow> pyfloat \<Rightarrow> pyfloat \<Rightarrow> pyfloat \<Rightarrow> pyfloat \<Rightarrow> pyfloat
     \<Rightarrow> pyfloat list \<Rightarrow> pyfloat list \<Rightarrow> (error + pyfloat) \<times> 'z settings_scheme" where
  "price_american_call_pde E s spot strike rate div_yield maturity volatility dividends dividend_times =
     (let s1 = s\<lparr>evaluationDate := calculation_date\<rparr>;
          m = \<lparr>reference_date = calculation_date, spot_quote = spot, risk_free = rate,
               dividend_yield = div_yield, black_vol = volatility, payoff_strike = strike\<rparr>
      in
      case ql_market E s1 m of
        Some e \<Rightarrow> (Inl e, s1)
      | None \<Rightarrow>
      (case date_after E s1 calculation_date maturity of
        Inl e \<Rightarrow> (Inl e, s1)
      | Inr latest \<Rightarrow>
      (case ql_option E s1 m calculation_date latest of
        Some e \<Rightarrow> (Inl e, s1)
      | None \<Rightarrow>
      (case dividend_dates_ql E s1 calculation_date dividend_times of
        Inl e \<Rightarrow> (Inl e, s1)
      | Inr dates \<Rightarrow>
          (ql_npv E s1
             \<lparr>market_data = m,
              earliest_exercise = calculation_date,
              latest_exercise = latest,
              dividendSchedule = dividend_schedule dates dividends,
              timeSteps = 100,
              gridPoints = 100\<rparr>,
           s1)))))"

section \<open>The implied-volatility solver\<close>

text \<open>
  Running a root finder against an objective that may raise and that changes the
  settings: what the objective raises ends the run.
\<close>

primrec run ::
  "root_finder \<Rightarrow> (pyfloat \<Rightarrow> 's \<Rightarrow> (error + pyfloat) \<times> 's) \<Rightarrow> 's \<Rightarrow> (error + pyfloat) \<times> 's" where
  "run (Return v) f s = (Inr v, s)"
| "run (Raise e) f s = (Inl e, s)"
| "run (Call x k) f s =
     (case f x s of
        (Inl e, s') \<Rightarrow> (Inl e, s')
      | (Inr y, s') \<Rightarrow> run (k y) f s')"


text \<open>\<^verbatim>\<open>objective_function\<close>, lines 87 to 91.\<close>

definition objective_function ::
  "'z env \<Rightarrow> pyfloat \<Rightarrow> pyfloat \<Rightarrow> pyfloat \<Rightarrow> pyfloat \<Rightarrow> pyfloat \<Rightarrow> pyfloat
     \<Rightarrow> pyfloat list \<Rightarrow> pyfloat list \<Rightarrow> pyfloat \<Rightarrow> 'z settings_scheme
     \<Rightarrow> (error + pyfloat) \<times> 'z settings_scheme" where
  "objective_function E target_price spot strike rate div_yield maturity dividends dividend_times vol s =
     (case price_american_call_pde E s spot strike rate div_yield maturity vol dividends dividend_times of
        (Inl e, s') \<Rightarrow> (Inl e, s')
      | (Inr price, s') \<Rightarrow> (Inr (fsub E price target_price), s'))"

text \<open>Line 96 passes the objective and the guess and nothing else.\<close>

definition no_options :: newton_options where
  "no_options = \<lparr>tol = None, maxiter = None\<rparr>"

text \<open>
  \<^verbatim>\<open>implied_volatility_american_call_pde\<close>, lines 66 to 99. \<open>Inr (Some v)\<close> is the
  returned float, \<open>Inr None\<close> is Python's \<^verbatim>\<open>None\<close>, \<open>Inl e\<close> an exception that leaves
  the function.
\<close>

definition implied_volatility_american_call_pde ::
  "'z env \<Rightarrow> 'z settings_scheme \<Rightarrow> pyfloat \<Rightarrow> pyfloat \<Rightarrow> pyfloat \<Rightarrow> pyfloat \<Rightarrow> pyfloat \<Rightarrow> pyfloat
     \<Rightarrow> pyfloat list \<Rightarrow> pyfloat list \<Rightarrow> pyfloat
     \<Rightarrow> (error + pyfloat option) \<times> 'z settings_scheme" where
  "implied_volatility_american_call_pde E s target_price spot strike rate div_yield maturity
       dividends dividend_times guess =
     (case run (newton E no_options guess)
             (objective_function E target_price spot strike rate div_yield maturity
                dividends dividend_times) s of
        (Inr implied_vol, s') \<Rightarrow> (Inr (Some implied_vol), s')
      | (Inl e, s') \<Rightarrow> if is_RuntimeError e then (Inr None, s') else (Inl e, s'))"

section \<open>Concrete environments\<close>

text \<open>
  Float arithmetic without rounding, for running the model on inputs whose products and
  differences are exact in double precision as well.
\<close>

fun exact_mul :: "pyfloat \<Rightarrow> pyfloat \<Rightarrow> pyfloat" where
  "exact_mul (Fin a) (Fin b) = Fin (a * b)"
| "exact_mul NaN y = NaN"
| "exact_mul x NaN = NaN"
| "exact_mul PosInf (Fin b) = (if b = 0 then NaN else if 0 < b then PosInf else NegInf)"
| "exact_mul NegInf (Fin b) = (if b = 0 then NaN else if 0 < b then NegInf else PosInf)"
| "exact_mul (Fin a) PosInf = (if a = 0 then NaN else if 0 < a then PosInf else NegInf)"
| "exact_mul (Fin a) NegInf = (if a = 0 then NaN else if 0 < a then NegInf else PosInf)"
| "exact_mul PosInf PosInf = PosInf"
| "exact_mul PosInf NegInf = NegInf"
| "exact_mul NegInf PosInf = NegInf"
| "exact_mul NegInf NegInf = PosInf"

fun exact_sub :: "pyfloat \<Rightarrow> pyfloat \<Rightarrow> pyfloat" where
  "exact_sub (Fin a) (Fin b) = Fin (a - b)"
| "exact_sub NaN y = NaN"
| "exact_sub x NaN = NaN"
| "exact_sub PosInf PosInf = NaN"
| "exact_sub NegInf NegInf = NaN"
| "exact_sub PosInf y = PosInf"
| "exact_sub NegInf y = NegInf"
| "exact_sub (Fin a) PosInf = NegInf"
| "exact_sub (Fin a) NegInf = PosInf"

text \<open>A library that builds an exercise from any two dates.\<close>

definition any_window :: "'z settings_scheme \<Rightarrow> market \<Rightarrow> qldate \<Rightarrow> qldate \<Rightarrow> error option" where
  "any_window s m earliest latest = None"

text \<open>
  A library that refuses, with \<^verbatim>\<open>RuntimeError\<close>, an exercise whose last date lies
  before its first.
\<close>

definition forward_window :: "'z settings_scheme \<Rightarrow> market \<Rightarrow> qldate \<Rightarrow> qldate \<Rightarrow> error option" where
  "forward_window s m earliest latest =
     (case latest of
        PlusDays d n \<Rightarrow> if n < 0 then Some RuntimeError else None
      | Date d mo y \<Rightarrow> None)"

text \<open>An engine that values every request at the same number and never fails.\<close>

definition flat_engine :: "pyfloat \<Rightarrow> 'z settings_scheme \<Rightarrow> fd_request \<Rightarrow> error + pyfloat" where
  "flat_engine v s r = Inr v"

text \<open>An engine that reports the resolution it was built with.\<close>

definition grid_engine :: "'z settings_scheme \<Rightarrow> fd_request \<Rightarrow> error + pyfloat" where
  "grid_engine s r = Inr (Fin (real (1000 * timeSteps r + gridPoints r)))"

text \<open>
  An engine that reports its resolution at 100 by 100 and refuses every other
  resolution.
\<close>

definition strict_grid_engine :: "'z settings_scheme \<Rightarrow> fd_request \<Rightarrow> error + pyfloat" where
  "strict_grid_engine s r =
     (if timeSteps r = 100 \<and> gridPoints r = 100 then grid_engine s r else Inl RuntimeError)"


text \<open>An engine that reports the length in days of the exercise window.\<close>

definition days_engine :: "'z settings_scheme \<Rightarrow> fd_request \<Rightarrow> error + pyfloat" where
  "days_engine s r =
     (case latest_exercise r of
        PlusDays d n \<Rightarrow> Inr (Fin (real_of_int n))
      | Date d m y \<Rightarrow> Inr (Fin 0))"

text \<open>A root finder that evaluates the objective at the guess and returns the guess.\<close>

definition one_shot :: "newton_options \<Rightarrow> pyfloat \<Rightarrow> root_finder" where
  "one_shot opts x0 = Call x0 (\<lambda>q0. Return x0)"





text \<open>A root finder that works as \<open>one_shot\<close> on its defaults and refuses every option.\<close>

definition defaults_only :: "newton_options \<Rightarrow> pyfloat \<Rightarrow> root_finder" where
  "defaults_only opts x0 =
     (if tol opts = None \<and> maxiter opts = None then Call x0 (\<lambda>q0. Return x0) else Raise ValueError)"

text \<open>A root finder that reports the iteration budget it was given, NaN when none.\<close>

definition budget_probe :: "newton_options \<Rightarrow> pyfloat \<Rightarrow> root_finder" where
  "budget_probe opts x0 =
     Return (case maxiter opts of None \<Rightarrow> NaN | Some n \<Rightarrow> Fin (real_of_int n))"

text \<open>
  An environment with exact arithmetic, a library that builds every market and every
  date, and the given exercise check, engine and root finder.
\<close>

definition stub_env ::
  "(settings \<Rightarrow> market \<Rightarrow> qldate \<Rightarrow> qldate \<Rightarrow> error option)
     \<Rightarrow> (settings \<Rightarrow> fd_request \<Rightarrow> error + pyfloat)
     \<Rightarrow> (newton_options \<Rightarrow> pyfloat \<Rightarrow> root_finder) \<Rightarrow> unit env" where
  "stub_env window engine finder =
     \<lparr>fmul = exact_mul, fsub = exact_sub,
      ql_market = (\<lambda>s m. None),
      ql_date_plus = (\<lambda>s d n. Inr (PlusDays d n)),
      ql_option = window,
      ql_npv = engine,
      newton = finder\<rparr>"

text \<open>The settings of a process that had its evaluation date at the end of 1999.\<close>

definition old_settings :: settings where
  "old_settings = \<lparr>evaluationDate = Date 31 12 1999\<rparr>"

section \<open>Predicates on times\<close>

text \<open>
  A time converts when \<^verbatim>\<open>calculation_date + ql.Period(int(t * 365), ql.Days)\<close> raises
  neither in \<^verbatim>\<open>int()\<close> nor in the library, under the settings the pricer has set.
\<close>

definition converts :: "'z env \<Rightarrow> 'z settings_scheme \<Rightarrow> pyfloat \<Rightarrow> bool" where
  "converts E s t =
     (case date_after E (s\<lparr>evaluationDate := calculation_date\<rparr>) calculation_date t of
        Inl e \<Rightarrow> False
      | Inr d \<Rightarrow> True)"

text \<open>
  Two times fall on the same day when their products with 365 are finite, not negative,
  and have the same floor.
\<close>

definition same_day :: "'z env \<Rightarrow> pyfloat \<Rightarrow> pyfloat \<Rightarrow> bool" where
  "same_day E t1 t2 =
     (case (fmul E t1 (Fin 365), fmul E t2 (Fin 365)) of
        (Fin p, Fin q) \<Rightarrow> 0 \<le> p \<and> 0 \<le> q \<and> \<lfloor>p\<rfloor> = \<lfloor>q\<rfloor>
      | _ \<Rightarrow> False)"

section \<open>Shorthands for the statements\<close>

text \<open>The settings as line 27 leaves them, and the market as lines 32 to 43 build it.\<close>

abbreviation dated :: "'z settings_scheme \<Rightarrow> 'z settings_scheme" where
  "dated s \<equiv> s\<lparr>evaluationDate := calculation_date\<rparr>"

abbreviation call_market :: "pyfloat \<Rightarrow> pyfloat \<Rightarrow> pyfloat \<Rightarrow> pyfloat \<Rightarrow> pyfloat \<Rightarrow> market" where
  "call_market spot strike rate div_yield volatility \<equiv>
     \<lparr>reference_date = calculation_date, spot_quote = spot, risk_free = rate,
      dividend_yield = div_yield, black_vol = volatility, payoff_strike = strike\<rparr>"

text \<open>
  The library, asked for an exercise window of \<open>n\<close> days, builds every object, and the
  engine, at 100 time steps and 100 grid points, returns \<open>v\<close>.
\<close>

abbreviation returns_on_window ::
  "'z env \<Rightarrow> 'z settings_scheme \<Rightarrow> market \<Rightarrow> int \<Rightarrow> pyfloat list \<Rightarrow> pyfloat list \<Rightarrow> pyfloat \<Rightarrow> bool" where
  "returns_on_window E s m n dividends dividend_times v \<equiv>
     ql_market E s m = None
     \<and> (\<exists>latest dates.
           ql_date_plus E s calculation_date n = Inr latest
         \<and> ql_option E s m calculation_date latest = None
         \<and> dividend_dates_ql E s calculation_date dividend_times = Inr dates
         \<and> ql_npv E s
             \<lparr>market_data = m,
              earliest_exercise = calculation_date,
              latest_exercise = latest,
              dividendSchedule = dividend_schedule dates dividends,
              timeSteps = 100, gridPoints = 100\<rparr> = Inr v)"

section \<open>Facts about the conversion of times\<close>

lemma to_days_error: "to_days E t = Inl e \<Longrightarrow> e = ValueError \<or> e = OverflowError"
  by (cases "fmul E t (Fin 365)") (auto simp: to_days_def)

lemma date_after_error:
  "date_after E s d t = Inl e \<Longrightarrow> to_days E t = Inl e \<or> (\<exists>n. ql_date_plus E s d n = Inl e)"
  by (auto simp: date_after_def split: sum.splits)

lemma date_after_cong:
  "to_days E t1 = to_days E t2 \<Longrightarrow> date_after E s d t1 = date_after E s d t2"
  by (simp add: date_after_def)

lemma dividend_dates_ql_error:
  "dividend_dates_ql E s d ts = Inl e \<Longrightarrow> \<exists>t\<in>set ts. date_after E s d t = Inl e"
  by (induction ts) (auto split: sum.splits)

lemma dividend_dates_ql_converts:
  "list_all (converts E s) ts \<Longrightarrow>
   \<exists>dates. dividend_dates_ql E (dated s) calculation_date ts = Inr dates \<and> length dates = length ts"
  by (induction ts) (auto simp: converts_def split: sum.splits)

lemma dividend_dates_ql_length:
  "dividend_dates_ql E s d ts = Inr dates \<Longrightarrow> length dates = length ts"
  by (induction ts arbitrary: dates) (auto split: sum.splits)

lemma dividend_dates_ql_append:
  "dividend_dates_ql E s d (xs @ ys) =
     (case dividend_dates_ql E s d xs of
        Inl e \<Rightarrow> Inl e
      | Inr a \<Rightarrow> (case dividend_dates_ql E s d ys of Inl e \<Rightarrow> Inl e | Inr b \<Rightarrow> Inr (a @ b)))"
  by (induction xs) (auto split: sum.splits)

lemma dividend_dates_ql_cong:
  "map (to_days E) ts1 = map (to_days E) ts2 \<Longrightarrow>
   dividend_dates_ql E s d ts1 = dividend_dates_ql E s d ts2"
proof (induction ts1 arbitrary: ts2)
  case Nil
  then show ?case by simp
next
  case (Cons t ts1)
  then obtain u us where ts2: "ts2 = u # us" by (cases ts2) auto
  with Cons.prems have "to_days E t = to_days E u" and "map (to_days E) ts1 = map (to_days E) us"
    by simp_all
  then have "date_after E s d t = date_after E s d u"
    and "dividend_dates_ql E s d ts1 = dividend_dates_ql E s d us"
    using Cons.IH [of us] date_after_cong [of E t u s d] by simp_all
  with ts2 show ?case by (simp split: sum.splits)
qed

lemma same_day_to_days: "same_day E t1 t2 \<Longrightarrow> to_days E t1 = to_days E t2"
  by (auto simp: same_day_def to_days_def split: pyfloat.splits)

lemma same_days_to_days:
  "list_all2 (same_day E) ts1 ts2 \<Longrightarrow> map (to_days E) ts1 = map (to_days E) ts2"
  by (induction rule: list_all2_induct) (auto dest: same_day_to_days)

lemma price_cong:
  "to_days E m1 = to_days E m2 \<Longrightarrow> map (to_days E) ts1 = map (to_days E) ts2 \<Longrightarrow>
   price_american_call_pde E s spot strike rate div_yield m1 volatility dividends ts1
     = price_american_call_pde E s spot strike rate div_yield m2 volatility dividends ts2"
  using dividend_dates_ql_cong [of E ts1 ts2 "dated s" calculation_date]
    date_after_cong [of E m1 m2 "dated s" calculation_date]
  by (simp add: price_american_call_pde_def Let_def split: option.splits sum.splits)

lemma to_days_floor: "fmul E m (Fin 365) = Fin p \<Longrightarrow> 0 \<le> p \<Longrightarrow> to_days E m = Inr \<lfloor>p\<rfloor>"
  by (simp add: to_days_def)

lemma to_days_zero:
  assumes "fmul E m (Fin 365) = Fin p" and "- 1 < p" and "p < 1"
  shows "to_days E m = Inr 0"
proof (cases "0 \<le> p")
  case True
  with assms have "\<lfloor>p\<rfloor> = 0" by (simp add: floor_eq_iff)
  with assms True show ?thesis by (simp add: to_days_def)
next
  case False
  with assms have "\<lceil>p\<rceil> = 0" by (simp add: ceiling_eq_iff)
  with assms False show ?thesis by (simp add: to_days_def)
qed

text \<open>
  A maturity of \<open>n\<close> days: the call returns a number exactly when the library, asked
  for a window of \<open>n\<close> days, builds every object and the engine returns that number.
\<close>

lemma price_on_window:
  "to_days E m = Inr n \<Longrightarrow>
   fst (price_american_call_pde E s spot strike rate div_yield m volatility dividends dividend_times)
     = Inr v
   \<longleftrightarrow> returns_on_window E (dated s) (call_market spot strike rate div_yield volatility) n
         dividends dividend_times v"
  by (auto simp: price_american_call_pde_def Let_def date_after_def split: option.splits sum.splits)

text \<open>The pricer and the objective do not look at the root finder.\<close>

lemma to_days_newton [simp]: "to_days (E\<lparr>newton := g\<rparr>) t = to_days E t"
  by (simp add: to_days_def)

lemma date_after_newton [simp]: "date_after (E\<lparr>newton := g\<rparr>) s d t = date_after E s d t"
  by (simp add: date_after_def split: sum.splits)

lemma dividend_dates_ql_newton [simp]:
  "dividend_dates_ql (E\<lparr>newton := g\<rparr>) s d ts = dividend_dates_ql E s d ts"
  by (induction ts) (simp_all split: sum.splits)

lemma price_newton [simp]:
  "price_american_call_pde (E\<lparr>newton := g\<rparr>) = price_american_call_pde E"
  by (intro ext) (simp add: price_american_call_pde_def Let_def split: option.splits sum.splits)

lemma objective_newton [simp]:
  "objective_function (E\<lparr>newton := g\<rparr>) = objective_function E"
  by (intro ext) (simp add: objective_function_def split: prod.splits sum.splits)

text \<open>What the objective raises at the first point a root finder evaluates ends the run.\<close>

lemma run_first_call_raises:
  "fst (f x s) = Inl e \<Longrightarrow> fst (run (Call x k) f s) = Inl e"
  by (cases "f x s") (auto split: sum.splits)

lemma objective_raises:
  "fst (price_american_call_pde E s spot strike rate div_yield maturity vol dividends dividend_times) = Inl e
   \<Longrightarrow> fst (objective_function E target_price spot strike rate div_yield maturity dividends
              dividend_times vol s) = Inl e"
  by (auto simp: objective_function_def split: prod.splits sum.splits)


section \<open>The pricer: inputs, failures and the settings\<close>

text \<open>
  Claim C1, as amended. The pricer tests neither spot, volatility nor maturity, and it
  has no resolution parameters. A call returns a number exactly when every call into
  the library builds its objects and the engine, at the fixed resolution of 100 time
  steps and 100 grid points and on the caller's spot, strike, rates and volatility
  unchanged, returns that number. A call that fails raises either the \<^verbatim>\<open>ValueError\<close> or
  \<^verbatim>\<open>OverflowError\<close> of \<^verbatim>\<open>int()\<close> on a maturity or dividend time whose product with
  365 is not finite, or what a call into the library raised.
\<close>

theorem pricer_checks_no_input:
  "(fst (price_american_call_pde E s spot strike rate div_yield maturity volatility
           dividends dividend_times) = Inr v
      \<longleftrightarrow> ql_market E (dated s) (call_market spot strike rate div_yield volatility) = None
          \<and> (\<exists>latest dates.
                date_after E (dated s) calculation_date maturity = Inr latest
              \<and> ql_option E (dated s) (call_market spot strike rate div_yield volatility)
                  calculation_date latest = None
              \<and> dividend_dates_ql E (dated s) calculation_date dividend_times = Inr dates
              \<and> ql_npv E (dated s)
                  \<lparr>market_data = call_market spot strike rate div_yield volatility,
                   earliest_exercise = calculation_date,
                   latest_exercise = latest,
                   dividendSchedule = dividend_schedule dates dividends,
                   timeSteps = 100, gridPoints = 100\<rparr> = Inr v))
   \<and> (fst (price_american_call_pde E s spot strike rate div_yield maturity volatility
           dividends dividend_times) = Inl e
      \<longrightarrow> ((e = ValueError \<or> e = OverflowError)
            \<and> (to_days E maturity = Inl e \<or> (\<exists>t\<in>set dividend_times. to_days E t = Inl e)))
          \<or> ql_market E (dated s) (call_market spot strike rate div_yield volatility) = Some e
          \<or> (\<exists>n. ql_date_plus E (dated s) calculation_date n = Inl e)
          \<or> (\<exists>latest. ql_option E (dated s) (call_market spot strike rate div_yield volatility)
                calculation_date latest = Some e)
          \<or> (\<exists>r. ql_npv E (dated s) r = Inl e
                \<and> market_data r = call_market spot strike rate div_yield volatility
                \<and> timeSteps r = 100 \<and> gridPoints r = 100))"
proof (intro conjI impI)
  show "fst (price_american_call_pde E s spot strike rate div_yield maturity volatility
           dividends dividend_times) = Inr v
      \<longleftrightarrow> ql_market E (dated s) (call_market spot strike rate div_yield volatility) = None
          \<and> (\<exists>latest dates.
                date_after E (dated s) calculation_date maturity = Inr latest
              \<and> ql_option E (dated s) (call_market spot strike rate div_yield volatility)
                  calculation_date latest = None
              \<and> dividend_dates_ql E (dated s) calculation_date dividend_times = Inr dates
              \<and> ql_npv E (dated s)
                  \<lparr>market_data = call_market spot strike rate div_yield volatility,
                   earliest_exercise = calculation_date,
                   latest_exercise = latest,
                   dividendSchedule = dividend_schedule dates dividends,
                   timeSteps = 100, gridPoints = 100\<rparr> = Inr v)"
    by (auto simp: price_american_call_pde_def Let_def split: option.splits sum.splits)
next
  assume fails: "fst (price_american_call_pde E s spot strike rate div_yield maturity volatility
           dividends dividend_times) = Inl e"
  let ?m = "call_market spot strike rate div_yield volatility"
  consider
    (market) "ql_market E (dated s) ?m = Some e"
  | (maturity) "date_after E (dated s) calculation_date maturity = Inl e"
  | (option) latest where "ql_option E (dated s) ?m calculation_date latest = Some e"
  | (dates) "dividend_dates_ql E (dated s) calculation_date dividend_times = Inl e"
  | (engine) r where "ql_npv E (dated s) r = Inl e" and "market_data r = ?m"
      and "timeSteps r = 100" and "gridPoints r = 100"
    using fails
    by (auto simp: price_american_call_pde_def Let_def split: option.splits sum.splits)
  then show "((e = ValueError \<or> e = OverflowError)
            \<and> (to_days E maturity = Inl e \<or> (\<exists>t\<in>set dividend_times. to_days E t = Inl e)))
          \<or> ql_market E (dated s) ?m = Some e
          \<or> (\<exists>n. ql_date_plus E (dated s) calculation_date n = Inl e)
          \<or> (\<exists>latest. ql_option E (dated s) ?m calculation_date latest = Some e)
          \<or> (\<exists>r. ql_npv E (dated s) r = Inl e \<and> market_data r = ?m
                \<and> timeSteps r = 100 \<and> gridPoints r = 100)"
  proof cases
    case market
    then show ?thesis by simp
  next
    case maturity
    then show ?thesis
      using date_after_error [OF maturity] to_days_error [of E maturity e] by blast
  next
    case option
    then show ?thesis by blast
  next
    case dates
    then obtain t where t: "t \<in> set dividend_times"
      and "date_after E (dated s) calculation_date t = Inl e"
      using dividend_dates_ql_error by blast
    then show ?thesis
      using date_after_error [of E "dated s" calculation_date t e] to_days_error [of E t e] by blast
  next
    case engine
    then show ?thesis by blast
  qed
qed

text \<open>
  The theorem at work over a library that accepts everything: with a spot of -1 the
  call returns what the engine returns, and with a NaN maturity the failure is the
  \<^verbatim>\<open>ValueError\<close> of \<^verbatim>\<open>int()\<close>.
\<close>

theorem pricer_checks_no_input_witness:
  "fst (price_american_call_pde (stub_env any_window days_engine one_shot) old_settings
          (Fin (- 1)) (Fin 100) (Fin 0.05) (Fin 0.02) (Fin 1) (Fin 0.2) [Fin 2, Fin 1.5] [Fin 0.25, Fin 0.75])
     = Inr (Fin 365)
   \<and> fst (price_american_call_pde (stub_env any_window days_engine one_shot) old_settings
          (Fin 100) (Fin 100) (Fin 0.05) (Fin 0.02) NaN (Fin 0.2) [Fin 2, Fin 1.5] [Fin 0.25, Fin 0.75])
     = Inl ValueError
   \<and> to_days (stub_env any_window days_engine one_shot) NaN = Inl ValueError"
proof -
  let ?E = "stub_env any_window days_engine one_shot"
  have accepted:
    "ql_market ?E (dated old_settings) (call_market (Fin (- 1)) (Fin 100) (Fin 0.05) (Fin 0.02) (Fin 0.2))
       = None
     \<and> (\<exists>latest dates.
           date_after ?E (dated old_settings) calculation_date (Fin 1) = Inr latest
         \<and> ql_option ?E (dated old_settings)
             (call_market (Fin (- 1)) (Fin 100) (Fin 0.05) (Fin 0.02) (Fin 0.2)) calculation_date latest
             = None
         \<and> dividend_dates_ql ?E (dated old_settings) calculation_date [Fin 0.25, Fin 0.75] = Inr dates
         \<and> ql_npv ?E (dated old_settings)
             \<lparr>market_data = call_market (Fin (- 1)) (Fin 100) (Fin 0.05) (Fin 0.02) (Fin 0.2),
              earliest_exercise = calculation_date,
              latest_exercise = latest,
              dividendSchedule = dividend_schedule dates [Fin 2, Fin 1.5],
              timeSteps = 100, gridPoints = 100\<rparr> = Inr (Fin 365))"
    by (simp add: stub_env_def any_window_def days_engine_def date_after_def to_days_def)
  have raised: "fst (price_american_call_pde ?E old_settings
          (Fin 100) (Fin 100) (Fin 0.05) (Fin 0.02) NaN (Fin 0.2) [Fin 2, Fin 1.5] [Fin 0.25, Fin 0.75])
     = Inl ValueError"
    by (simp add: price_american_call_pde_def Let_def stub_env_def date_after_def to_days_def)
  from pricer_checks_no_input [where E = ?E and s = old_settings and spot = "Fin (- 1)"
      and strike = "Fin 100" and rate = "Fin 0.05" and div_yield = "Fin 0.02" and maturity = "Fin 1"
      and volatility = "Fin 0.2" and dividends = "[Fin 2, Fin 1.5]"
      and dividend_times = "[Fin 0.25, Fin 0.75]" and v = "Fin 365"] accepted
  have "fst (price_american_call_pde ?E old_settings
          (Fin (- 1)) (Fin 100) (Fin 0.05) (Fin 0.02) (Fin 1) (Fin 0.2) [Fin 2, Fin 1.5] [Fin 0.25, Fin 0.75])
     = Inr (Fin 365)"
    by blast
  moreover from pricer_checks_no_input [where E = ?E and s = old_settings and spot = "Fin 100"
      and strike = "Fin 100" and rate = "Fin 0.05" and div_yield = "Fin 0.02" and maturity = NaN
      and volatility = "Fin 0.2" and dividends = "[Fin 2, Fin 1.5]"
      and dividend_times = "[Fin 0.25, Fin 0.75]" and e = ValueError] raised
  have "to_days ?E NaN = Inl ValueError"
    by (simp add: stub_env_def any_window_def days_engine_def to_days_def)
  ultimately show ?thesis using raised by simp
qed

text \<open>
  Claim C1 as the specification states it fails: over a library that accepts every
  input and an engine that values every request at 7, the pricer returns 7 for a spot
  of -1, for a volatility of -0.2 and for a maturity of 0. No check of the pricer's own
  stands between such inputs and the library.
\<close>

theorem pricer_invalid_input_counterexample:
  "fst (price_american_call_pde (stub_env any_window (flat_engine (Fin 7)) one_shot) old_settings
          (Fin (- 1)) (Fin 100) (Fin 0.05) (Fin 0.02) (Fin 1) (Fin 0.2) [Fin 2, Fin 1.5] [Fin 0.25, Fin 0.75])
     = Inr (Fin 7)
   \<and> fst (price_american_call_pde (stub_env any_window (flat_engine (Fin 7)) one_shot) old_settings
          (Fin 100) (Fin 100) (Fin 0.05) (Fin 0.02) (Fin 1) (Fin (- 0.2)) [Fin 2, Fin 1.5] [Fin 0.25, Fin 0.75])
     = Inr (Fin 7)
   \<and> fst (price_american_call_pde (stub_env any_window (flat_engine (Fin 7)) one_shot) old_settings
          (Fin 100) (Fin 100) (Fin 0.05) (Fin 0.02) (Fin 0) (Fin 0.2) [Fin 2, Fin 1.5] [Fin 0.25, Fin 0.75])
     = Inr (Fin 7)"
  by (simp add: price_american_call_pde_def Let_def date_after_def to_days_def stub_env_def
      any_window_def flat_engine_def)

text \<open>
  Claim C3, as amended. The value the pricer returns does not depend on the evaluation
  date the process had before the call, and the call has one effect on the process: it
  leaves the evaluation date at 1 January 2024, whether it returns or raises.
\<close>

theorem pricer_overwrites_evaluation_date:
  "fst (price_american_call_pde E (s\<lparr>evaluationDate := d\<rparr>) spot strike rate div_yield maturity
          volatility dividends dividend_times)
     = fst (price_american_call_pde E s spot strike rate div_yield maturity volatility
              dividends dividend_times)
   \<and> snd (price_american_call_pde E s spot strike rate div_yield maturity volatility
            dividends dividend_times)
     = s\<lparr>evaluationDate := calculation_date\<rparr>"
  by (simp add: price_american_call_pde_def Let_def split: option.splits sum.splits)

text \<open>
  The theorem at work on the module's example: a process dated 15 June 2030 gets the
  same value as one dated 31 December 1999, and is dated 1 January 2024 afterwards.
\<close>

theorem pricer_overwrites_evaluation_date_witness:
  "fst (price_american_call_pde (stub_env any_window days_engine one_shot)
          (old_settings\<lparr>evaluationDate := Date 15 6 2030\<rparr>)
          (Fin 100) (Fin 100) (Fin 0.05) (Fin 0.02) (Fin 1) (Fin 0.2) [Fin 2, Fin 1.5] [Fin 0.25, Fin 0.75])
     = Inr (Fin 365)
   \<and> snd (price_american_call_pde (stub_env any_window days_engine one_shot) old_settings
          (Fin 100) (Fin 100) (Fin 0.05) (Fin 0.02) (Fin 1) (Fin 0.2) [Fin 2, Fin 1.5] [Fin 0.25, Fin 0.75])
     = \<lparr>evaluationDate = Date 1 1 2024\<rparr>"
proof -
  have "fst (price_american_call_pde (stub_env any_window days_engine one_shot) old_settings
          (Fin 100) (Fin 100) (Fin 0.05) (Fin 0.02) (Fin 1) (Fin 0.2) [Fin 2, Fin 1.5] [Fin 0.25, Fin 0.75])
     = Inr (Fin 365)"
    by (simp add: price_american_call_pde_def Let_def date_after_def to_days_def stub_env_def
        any_window_def days_engine_def)
  with pricer_overwrites_evaluation_date
      [where E = "stub_env any_window days_engine one_shot" and s = old_settings
      and d = "Date 15 6 2030"
      and spot = "Fin 100" and strike = "Fin 100" and rate = "Fin 0.05" and div_yield = "Fin 0.02"
      and maturity = "Fin 1" and volatility = "Fin 0.2" and dividends = "[Fin 2, Fin 1.5]"
      and dividend_times = "[Fin 0.25, Fin 0.75]"]
  show ?thesis by (simp add: old_settings_def calculation_date_def)
qed

text \<open>
  Claim C3 as the specification states it fails: the call on the module's example
  leaves the settings of the process changed.
\<close>

theorem pricer_purity_counterexample:
  "snd (price_american_call_pde (stub_env any_window days_engine one_shot) old_settings
         (Fin 100) (Fin 100) (Fin 0.05) (Fin 0.02) (Fin 1) (Fin 0.2) [Fin 2, Fin 1.5] [Fin 0.25, Fin 0.75])
     \<noteq> old_settings"
  by (simp add: price_american_call_pde_def Let_def old_settings_def calculation_date_def
      split: option.splits sum.splits)

section \<open>The pricer: days and dividend lists\<close>

text \<open>
  Claim C9, as amended. The pricer turns the maturity and every dividend time into a
  whole number of days by \<^verbatim>\<open>int(t * 365)\<close>, which rounds toward zero.
  \<^item> Two inputs whose maturities, and whose dividend times one by one, have products
    with 365 that are not negative and have the same floor are priced alike, value
    and settings.
  \<^item> A maturity whose product with 365 is \<open>p\<close>, not negative, is priced on an exercise
    window of \<open>\<lfloor>p\<rfloor>\<close> days: the call returns a number exactly when the library, asked
    for that window, builds every object and the engine returns the number.
  \<^item> A maturity whose product with 365 lies strictly between -1 and 1 is priced on a
    window of zero days, and any two such maturities are priced alike.
\<close>

theorem day_truncation:
  "(same_day E m1 m2 \<and> list_all2 (same_day E) ts1 ts2 \<longrightarrow>
      price_american_call_pde E s spot strike rate div_yield m1 volatility dividends ts1
        = price_american_call_pde E s spot strike rate div_yield m2 volatility dividends ts2)
   \<and> (fmul E m (Fin 365) = Fin p \<and> 0 \<le> p \<longrightarrow>
        (fst (price_american_call_pde E s spot strike rate div_yield m volatility dividends
                dividend_times) = Inr v
         \<longleftrightarrow> returns_on_window E (dated s) (call_market spot strike rate div_yield volatility)
               \<lfloor>p\<rfloor> dividends dividend_times v))
   \<and> (fmul E m (Fin 365) = Fin p \<and> - 1 < p \<and> p < 1 \<longrightarrow>
        (fst (price_american_call_pde E s spot strike rate div_yield m volatility dividends
                dividend_times) = Inr v
         \<longleftrightarrow> returns_on_window E (dated s) (call_market spot strike rate div_yield volatility)
               0 dividends dividend_times v))
   \<and> (fmul E m (Fin 365) = Fin p \<and> - 1 < p \<and> p < 1
        \<and> fmul E m' (Fin 365) = Fin p' \<and> - 1 < p' \<and> p' < 1 \<longrightarrow>
        price_american_call_pde E s spot strike rate div_yield m volatility dividends dividend_times
          = price_american_call_pde E s spot strike rate div_yield m' volatility dividends
              dividend_times)"
proof (intro conjI impI)
  assume "same_day E m1 m2 \<and> list_all2 (same_day E) ts1 ts2"
  then have "to_days E m1 = to_days E m2" and "map (to_days E) ts1 = map (to_days E) ts2"
    by (simp_all add: same_day_to_days same_days_to_days)
  then show "price_american_call_pde E s spot strike rate div_yield m1 volatility dividends ts1
        = price_american_call_pde E s spot strike rate div_yield m2 volatility dividends ts2"
    by (rule price_cong)
next
  assume "fmul E m (Fin 365) = Fin p \<and> 0 \<le> p"
  then have "to_days E m = Inr \<lfloor>p\<rfloor>" by (simp add: to_days_floor)
  then show "fst (price_american_call_pde E s spot strike rate div_yield m volatility dividends
                dividend_times) = Inr v
         \<longleftrightarrow> returns_on_window E (dated s) (call_market spot strike rate div_yield volatility)
               \<lfloor>p\<rfloor> dividends dividend_times v"
    by (rule price_on_window)
next
  assume "fmul E m (Fin 365) = Fin p \<and> - 1 < p \<and> p < 1"
  then have "to_days E m = Inr 0" by (simp add: to_days_zero)
  then show "fst (price_american_call_pde E s spot strike rate div_yield m volatility dividends
                dividend_times) = Inr v
         \<longleftrightarrow> returns_on_window E (dated s) (call_market spot strike rate div_yield volatility)
               0 dividends dividend_times v"
    by (rule price_on_window)
next
  assume "fmul E m (Fin 365) = Fin p \<and> - 1 < p \<and> p < 1
        \<and> fmul E m' (Fin 365) = Fin p' \<and> - 1 < p' \<and> p' < 1"
  then have "to_days E m = Inr 0" and "to_days E m' = Inr 0"
    by (simp_all add: to_days_zero)
  then have "to_days E m = to_days E m'" by simp
  then show "price_american_call_pde E s spot strike rate div_yield m volatility dividends
               dividend_times
          = price_american_call_pde E s spot strike rate div_yield m' volatility dividends
              dividend_times"
    by (rule price_cong) simp
qed

text \<open>
  The theorem at work over a library that builds every object and an engine that
  reports the length of the window: a maturity of 1.001 years and dividends at 0.2501
  and 0.7501 are priced as a maturity of 1 year and dividends at 0.25 and 0.75, on a
  window of 365 days; maturities of 0.002 and of -0.002 years are priced alike, on a
  window of zero days.
\<close>

theorem day_truncation_witness:
  "same_day (stub_env any_window days_engine one_shot) (Fin 1) (Fin 1.001)
   \<and> list_all2 (same_day (stub_env any_window days_engine one_shot))
        [Fin 0.25, Fin 0.75] [Fin 0.2501, Fin 0.7501]
   \<and> price_american_call_pde (stub_env any_window days_engine one_shot) old_settings
        (Fin 100) (Fin 100) (Fin 0.05) (Fin 0.02) (Fin 1) (Fin 0.2) [Fin 2, Fin 1.5] [Fin 0.25, Fin 0.75]
     = price_american_call_pde (stub_env any_window days_engine one_shot) old_settings
        (Fin 100) (Fin 100) (Fin 0.05) (Fin 0.02) (Fin 1.001) (Fin 0.2) [Fin 2, Fin 1.5] [Fin 0.2501, Fin 0.7501]
   \<and> fmul (stub_env any_window days_engine one_shot) (Fin 1.001) (Fin 365) = Fin 365.365
   \<and> fst (price_american_call_pde (stub_env any_window days_engine one_shot) old_settings
        (Fin 100) (Fin 100) (Fin 0.05) (Fin 0.02) (Fin 1.001) (Fin 0.2) [Fin 2, Fin 1.5] [Fin 0.25, Fin 0.75])
     = Inr (Fin 365)
   \<and> fmul (stub_env any_window days_engine one_shot) (Fin 0.002) (Fin 365) = Fin 0.73
   \<and> fst (price_american_call_pde (stub_env any_window days_engine one_shot) old_settings
        (Fin 100) (Fin 100) (Fin 0.05) (Fin 0.02) (Fin 0.002) (Fin 0.2) [Fin 2, Fin 1.5] [Fin 0.25, Fin 0.75])
     = Inr (Fin 0)
   \<and> fmul (stub_env any_window days_engine one_shot) (Fin (- 0.002)) (Fin 365) = Fin (- 0.73)
   \<and> price_american_call_pde (stub_env any_window days_engine one_shot) old_settings
        (Fin 100) (Fin 100) (Fin 0.05) (Fin 0.02) (Fin 0.002) (Fin 0.2) [Fin 2, Fin 1.5] [Fin 0.25, Fin 0.75]
     = price_american_call_pde (stub_env any_window days_engine one_shot) old_settings
        (Fin 100) (Fin 100) (Fin 0.05) (Fin 0.02) (Fin (- 0.002)) (Fin 0.2) [Fin 2, Fin 1.5] [Fin 0.25, Fin 0.75]"
proof -
  let ?E = "stub_env any_window days_engine one_shot"
  let ?M = "call_market (Fin 100) (Fin 100) (Fin 0.05) (Fin 0.02) (Fin 0.2)"
  have h1: "same_day ?E (Fin 1) (Fin 1.001)
      \<and> list_all2 (same_day ?E) [Fin 0.25, Fin 0.75] [Fin 0.2501, Fin 0.7501]"
    by (simp add: same_day_def stub_env_def)
  have h2: "fmul ?E (Fin 1.001) (Fin 365) = Fin 365.365 \<and> 0 \<le> (365.365::real)"
    by (simp add: stub_env_def)
  have f2: "\<lfloor>365.365::real\<rfloor> = 365" by (simp add: floor_eq_iff)
  have w2: "returns_on_window ?E (dated old_settings) ?M 365 [Fin 2, Fin 1.5] [Fin 0.25, Fin 0.75]
      (Fin 365)"
    by (simp add: stub_env_def any_window_def days_engine_def date_after_def to_days_def)
  have h3: "fmul ?E (Fin 0.002) (Fin 365) = Fin 0.73 \<and> - 1 < (0.73::real) \<and> (0.73::real) < 1"
    by (simp add: stub_env_def)
  have w3: "returns_on_window ?E (dated old_settings) ?M 0 [Fin 2, Fin 1.5] [Fin 0.25, Fin 0.75]
      (Fin 0)"
    by (simp add: stub_env_def any_window_def days_engine_def date_after_def to_days_def)
  have h4: "fmul ?E (Fin (- 0.002)) (Fin 365) = Fin (- 0.73)
      \<and> - 1 < (- 0.73::real) \<and> (- 0.73::real) < 1"
    by (simp add: stub_env_def)
  note inst = day_truncation [where E = ?E and s = old_settings and spot = "Fin 100"
      and strike = "Fin 100" and rate = "Fin 0.05" and div_yield = "Fin 0.02"
      and volatility = "Fin 0.2" and dividends = "[Fin 2, Fin 1.5]"
      and dividend_times = "[Fin 0.25, Fin 0.75]"]
  from inst [where ?m1.0 = "Fin 1" and ?m2.0 = "Fin 1.001" and ?ts1.0 = "[Fin 0.25, Fin 0.75]"
      and ?ts2.0 = "[Fin 0.2501, Fin 0.7501]"] h1
  have a: "price_american_call_pde ?E old_settings
        (Fin 100) (Fin 100) (Fin 0.05) (Fin 0.02) (Fin 1) (Fin 0.2) [Fin 2, Fin 1.5] [Fin 0.25, Fin 0.75]
     = price_american_call_pde ?E old_settings
        (Fin 100) (Fin 100) (Fin 0.05) (Fin 0.02) (Fin 1.001) (Fin 0.2) [Fin 2, Fin 1.5] [Fin 0.2501, Fin 0.7501]"
    by blast
  from inst [where m = "Fin 1.001" and p = "365.365" and v = "Fin 365"] h2 w2 f2
  have b: "fst (price_american_call_pde ?E old_settings
        (Fin 100) (Fin 100) (Fin 0.05) (Fin 0.02) (Fin 1.001) (Fin 0.2) [Fin 2, Fin 1.5] [Fin 0.25, Fin 0.75])
     = Inr (Fin 365)"
    by simp
  from inst [where m = "Fin 0.002" and p = "0.73" and v = "Fin 0"] h3 w3
  have c: "fst (price_american_call_pde ?E old_settings
        (Fin 100) (Fin 100) (Fin 0.05) (Fin 0.02) (Fin 0.002) (Fin 0.2) [Fin 2, Fin 1.5] [Fin 0.25, Fin 0.75])
     = Inr (Fin 0)"
    by blast
  from inst [where m = "Fin 0.002" and p = "0.73" and m' = "Fin (- 0.002)" and p' = "- 0.73"] h3 h4
  have d: "price_american_call_pde ?E old_settings
        (Fin 100) (Fin 100) (Fin 0.05) (Fin 0.02) (Fin 0.002) (Fin 0.2) [Fin 2, Fin 1.5] [Fin 0.25, Fin 0.75]
     = price_american_call_pde ?E old_settings
        (Fin 100) (Fin 100) (Fin 0.05) (Fin 0.02) (Fin (- 0.002)) (Fin 0.2) [Fin 2, Fin 1.5] [Fin 0.25, Fin 0.75]"
    by blast
  from h1 h2 h3 h4 a b c d show ?thesis by blast
qed

text \<open>
  Claim C9 as stated fails below zero, where \<^verbatim>\<open>int()\<close> rounds up and the floor rounds
  down. A maturity of -1 is strictly below 1/365 and is not priced on a window of zero
  days: \<^verbatim>\<open>int(-1.0 * 365)\<close> is -365, the window ends 365 days before it starts, and over
  a library that refuses such an exercise the call raises, while a maturity of 0 is
  priced on the window of zero days. And the maturities -1 and -0.999 have the same
  floor of their products with 365 and different numbers of days, -365 and -364.
\<close>

theorem negative_maturity_counterexample:
  "(- 1 :: real) < 1 / 365
   \<and> to_days (stub_env forward_window days_engine one_shot) (Fin (- 1)) = Inr (- 365)
   \<and> fst (price_american_call_pde (stub_env forward_window days_engine one_shot) old_settings
        (Fin 100) (Fin 100) (Fin 0.05) (Fin 0.02) (Fin (- 1)) (Fin 0.2) [Fin 2, Fin 1.5] [Fin 0.25, Fin 0.75])
     = Inl RuntimeError
   \<and> fst (price_american_call_pde (stub_env forward_window days_engine one_shot) old_settings
        (Fin 100) (Fin 100) (Fin 0.05) (Fin 0.02) (Fin 0) (Fin 0.2) [Fin 2, Fin 1.5] [Fin 0.25, Fin 0.75])
     = Inr (Fin 0)
   \<and> \<lfloor>(- 1 :: real) * 365\<rfloor> = \<lfloor>(- 0.999 :: real) * 365\<rfloor>
   \<and> to_days (stub_env forward_window days_engine one_shot) (Fin (- 1))
     \<noteq> to_days (stub_env forward_window days_engine one_shot) (Fin (- 0.999))"
  by (simp add: price_american_call_pde_def Let_def date_after_def to_days_def stub_env_def
      forward_window_def days_engine_def)

text \<open>
  Claim C10, as amended. Lists of different lengths raise no error on that account.
  Dividends beyond the last dividend time are ignored. Dividend times beyond the last
  dividend are still turned into dates, before the lists are paired; provided each of
  them converts, they are ignored as well, and the call returns what it returns
  on the two lists cut to the length of the shorter.
\<close>

theorem zip_truncation:
  assumes "list_all (converts E s) (drop (length dividends) dividend_times)"
  shows "price_american_call_pde E s spot strike rate div_yield maturity volatility dividends dividend_times
     = price_american_call_pde E s spot strike rate div_yield maturity volatility
         (take (min (length dividends) (length dividend_times)) dividends)
         (take (min (length dividends) (length dividend_times)) dividend_times)"
proof -
  define k where "k = min (length dividends) (length dividend_times)"
  have dropk: "drop k dividend_times = drop (length dividends) dividend_times"
    by (simp add: k_def min_def)
  with assms obtain b
    where b: "dividend_dates_ql E (dated s) calculation_date (drop k dividend_times) = Inr b"
    and lb: "length b = length (drop k dividend_times)"
    using dividend_dates_ql_converts [of E s "drop k dividend_times"] by auto
  have tail: "zip b (drop k dividends) = []"
    using lb by (cases "length dividends \<le> length dividend_times") (simp_all add: k_def min_def)
  have split: "dividend_dates_ql E (dated s) calculation_date dividend_times =
      (case dividend_dates_ql E (dated s) calculation_date (take k dividend_times) of
         Inl e \<Rightarrow> Inl e | Inr a \<Rightarrow> Inr (a @ b))"
    using dividend_dates_ql_append
      [of E "dated s" calculation_date "take k dividend_times" "drop k dividend_times"] b
    by (simp split: sum.splits)
  show ?thesis
  proof (cases "dividend_dates_ql E (dated s) calculation_date (take k dividend_times)")
    case (Inl e)
    with split show ?thesis
      by (simp add: price_american_call_pde_def Let_def k_def [symmetric]
          split: option.splits sum.splits)
  next
    case (Inr a)
    then have la: "length a = k"
      using dividend_dates_ql_length [OF Inr] by (simp add: k_def)
    have "zip (a @ b) dividends = zip a (take k dividends)"
      using la tail by (simp add: zip_append1)
    then have "dividend_schedule (a @ b) dividends = dividend_schedule a (take k dividends)"
      by (simp add: dividend_schedule_def)
    with split Inr show ?thesis
      by (simp add: price_american_call_pde_def Let_def k_def [symmetric]
          split: option.splits sum.splits)
  qed
qed

text \<open>
  The theorem at work: one dividend against two dividend times is priced as one
  dividend against the first of the two.
\<close>

theorem zip_truncation_witness:
  "list_all (converts (stub_env any_window days_engine one_shot) old_settings)
     (drop (length [Fin 2]) [Fin 0.25, Fin 0.75])
   \<and> price_american_call_pde (stub_env any_window days_engine one_shot) old_settings
        (Fin 100) (Fin 100) (Fin 0.05) (Fin 0.02) (Fin 1) (Fin 0.2) [Fin 2] [Fin 0.25, Fin 0.75]
     = price_american_call_pde (stub_env any_window days_engine one_shot) old_settings
        (Fin 100) (Fin 100) (Fin 0.05) (Fin 0.02) (Fin 1) (Fin 0.2) [Fin 2] [Fin 0.25]"
proof -
  let ?E = "stub_env any_window days_engine one_shot"
  have h: "list_all (converts ?E old_settings) (drop (length [Fin 2]) [Fin 0.25, Fin 0.75])"
    by (simp add: converts_def date_after_def to_days_def stub_env_def)
  from zip_truncation [OF h, of "Fin 100" "Fin 100" "Fin 0.05" "Fin 0.02" "Fin 1" "Fin 0.2"] h
  show ?thesis by simp
qed

text \<open>
  Claim C10 as stated fails when an entry beyond the shorter list does not convert:
  one dividend against the times 0.25 and NaN raises \<^verbatim>\<open>ValueError\<close>, while the same
  call without the second time returns the engine's value.
\<close>

theorem extra_dividend_time_counterexample:
  "fst (price_american_call_pde (stub_env any_window (flat_engine (Fin 7)) one_shot) old_settings
        (Fin 100) (Fin 100) (Fin 0.05) (Fin 0.02) (Fin 1) (Fin 0.2) [Fin 2] [Fin 0.25, NaN])
     = Inl ValueError
   \<and> fst (price_american_call_pde (stub_env any_window (flat_engine (Fin 7)) one_shot) old_settings
        (Fin 100) (Fin 100) (Fin 0.05) (Fin 0.02) (Fin 1) (Fin 0.2) [Fin 2] [Fin 0.25])
     = Inr (Fin 7)"
  by (simp add: price_american_call_pde_def Let_def date_after_def to_days_def stub_env_def
      any_window_def flat_engine_def)

section \<open>The solver: what it returns and what it intercepts\<close>

text \<open>
  An exception of the class \<^verbatim>\<open>RuntimeError\<close> that the pricer raises at the first point
  the root finder evaluates is intercepted like one of the root finder's own.
\<close>

lemma solver_intercepts_first_failure:
  assumes "newton E no_options guess = Call x k"
    and "fst (price_american_call_pde E s spot strike rate div_yield maturity x dividends
                dividend_times) = Inl e"
    and "is_RuntimeError e"
  shows "fst (implied_volatility_american_call_pde E s target_price spot strike rate div_yield
                maturity dividends dividend_times guess) = Inr None"
proof -
  have "fst (run (newton E no_options guess)
               (objective_function E target_price spot strike rate div_yield maturity
                  dividends dividend_times) s) = Inl e"
    unfolding assms(1) by (rule run_first_call_raises) (rule objective_raises [OF assms(2)])
  with assms(3) show ?thesis
    by (auto simp: implied_volatility_american_call_pde_def split: prod.splits sum.splits)
qed




text \<open>
  Claim C4 at a malformed input. With a maturity of -1 the exercise window ends 365
  days before it starts; a library that refuses to build such an exercise, with the
  \<^verbatim>\<open>RuntimeError\<close> under which QuantLib's Python bindings report the library's
  failures, makes the pricer fail, and the solver called with that maturity returns
  \<^verbatim>\<open>None\<close>: the failure of the pricer is reported as a search that did not converge
  instead of leaving the solver.
\<close>

theorem solver_swallows_pricer_failure:
  "fst (price_american_call_pde (stub_env forward_window days_engine one_shot) old_settings
          (Fin 100) (Fin 100) (Fin 0.05) (Fin 0.02) (Fin (- 1)) (Fin 0.2) [Fin 2, Fin 1.5] [Fin 0.25, Fin 0.75])
     = Inl RuntimeError
   \<and> fst (implied_volatility_american_call_pde (stub_env forward_window days_engine one_shot) old_settings
          (Fin 5) (Fin 100) (Fin 100) (Fin 0.05) (Fin 0.02) (Fin (- 1)) [Fin 2, Fin 1.5] [Fin 0.25, Fin 0.75] (Fin 0.2))
     = Inr None"
  by (simp add: implied_volatility_american_call_pde_def objective_function_def one_shot_def
      price_american_call_pde_def Let_def date_after_def to_days_def stub_env_def
      forward_window_def days_engine_def)

section \<open>Control parameters\<close>

text \<open>The conversions of times do not look at the engine.\<close>

lemma to_days_npv [simp]: "to_days (E\<lparr>ql_npv := g\<rparr>) t = to_days E t"
  by (simp add: to_days_def)

lemma date_after_npv [simp]: "date_after (E\<lparr>ql_npv := g\<rparr>) s d t = date_after E s d t"
  by (simp add: date_after_def split: sum.splits)

lemma dividend_dates_ql_npv [simp]:
  "dividend_dates_ql (E\<lparr>ql_npv := g\<rparr>) s d ts = dividend_dates_ql E s d ts"
  by (induction ts) (simp_all split: sum.splits)

text \<open>
  Claim C5, as amended. Neither function takes a control parameter, and each runs on
  fixed ones. The pricer has the engine built at 100 time steps and 100 grid points
  on every call: what it returns depends on the engine only through what the engine
  does at that resolution. The solver hands the root finder the objective and the
  guess and neither a tolerance nor an iteration budget: what it returns depends on
  the root finder only through what the root finder does on its defaults.
\<close>

theorem resolution_and_budget_fixed:
  "((\<forall>s' r. timeSteps r = 100 \<and> gridPoints r = 100 \<longrightarrow> g s' r = ql_npv E s' r) \<longrightarrow>
      price_american_call_pde (E\<lparr>ql_npv := g\<rparr>) s spot strike rate div_yield maturity volatility
          dividends dividend_times
        = price_american_call_pde E s spot strike rate div_yield maturity volatility
            dividends dividend_times)
   \<and> (h no_options guess = newton E no_options guess \<longrightarrow>
      implied_volatility_american_call_pde (E\<lparr>newton := h\<rparr>) s target_price spot strike rate
          div_yield maturity dividends dividend_times guess
        = implied_volatility_american_call_pde E s target_price spot strike rate
            div_yield maturity dividends dividend_times guess)"
proof (intro conjI impI)
  assume same: "\<forall>s' r. timeSteps r = 100 \<and> gridPoints r = 100 \<longrightarrow> g s' r = ql_npv E s' r"
  show "price_american_call_pde (E\<lparr>ql_npv := g\<rparr>) s spot strike rate div_yield maturity volatility
          dividends dividend_times
        = price_american_call_pde E s spot strike rate div_yield maturity volatility
            dividends dividend_times"
    by (simp add: price_american_call_pde_def Let_def same split: option.splits sum.splits)
next
  assume "h no_options guess = newton E no_options guess"
  then show "implied_volatility_american_call_pde (E\<lparr>newton := h\<rparr>) s target_price spot strike rate
          div_yield maturity dividends dividend_times guess
        = implied_volatility_american_call_pde E s target_price spot strike rate
            div_yield maturity dividends dividend_times guess"
    by (simp add: implied_volatility_american_call_pde_def)
qed

text \<open>
  The theorem at work on the module's example: the pricer returns the same over an
  engine that refuses every resolution but 100 by 100 as over one that accepts all,
  and the solver returns the same over a root finder that refuses every option as
  over one that accepts all.
\<close>

theorem resolution_and_budget_fixed_witness:
  "fst (price_american_call_pde
          ((stub_env any_window grid_engine one_shot)\<lparr>ql_npv := strict_grid_engine\<rparr>) old_settings
          (Fin 100) (Fin 100) (Fin 0.05) (Fin 0.02) (Fin 1) (Fin 0.2) [Fin 2, Fin 1.5] [Fin 0.25, Fin 0.75])
     = Inr (Fin 100100)
   \<and> defaults_only no_options (Fin 0.2)
     = newton (stub_env any_window grid_engine one_shot) no_options (Fin 0.2)
   \<and> fst (implied_volatility_american_call_pde
          ((stub_env any_window grid_engine one_shot)\<lparr>newton := defaults_only\<rparr>) old_settings
          (Fin 5) (Fin 100) (Fin 100) (Fin 0.05) (Fin 0.02) (Fin 1) [Fin 2, Fin 1.5] [Fin 0.25, Fin 0.75] (Fin 0.2))
     = Inr (Some (Fin 0.2))"
proof -
  let ?E = "stub_env any_window grid_engine one_shot"
  have h1: "\<forall>s' r. timeSteps r = 100 \<and> gridPoints r = 100 \<longrightarrow>
       strict_grid_engine s' r = ql_npv ?E s' r"
    by (simp add: strict_grid_engine_def stub_env_def)
  have h2: "defaults_only no_options (Fin 0.2) = newton ?E no_options (Fin 0.2)"
    by (simp add: defaults_only_def no_options_def stub_env_def one_shot_def)
  have p: "fst (price_american_call_pde ?E old_settings
          (Fin 100) (Fin 100) (Fin 0.05) (Fin 0.02) (Fin 1) (Fin 0.2) [Fin 2, Fin 1.5] [Fin 0.25, Fin 0.75])
     = Inr (Fin 100100)"
    by (simp add: price_american_call_pde_def Let_def date_after_def to_days_def stub_env_def
        any_window_def grid_engine_def)
  have q: "fst (implied_volatility_american_call_pde ?E old_settings
          (Fin 5) (Fin 100) (Fin 100) (Fin 0.05) (Fin 0.02) (Fin 1) [Fin 2, Fin 1.5] [Fin 0.25, Fin 0.75] (Fin 0.2))
     = Inr (Some (Fin 0.2))"
    by (simp add: implied_volatility_american_call_pde_def objective_function_def one_shot_def
        price_american_call_pde_def Let_def date_after_def to_days_def stub_env_def
        any_window_def grid_engine_def)
  note inst = resolution_and_budget_fixed [where E = ?E and s = old_settings
      and g = strict_grid_engine and h = defaults_only and guess = "Fin 0.2"
      and target_price = "Fin 5" and spot = "Fin 100" and strike = "Fin 100" and rate = "Fin 0.05"
      and div_yield = "Fin 0.02" and maturity = "Fin 1" and volatility = "Fin 0.2"
      and dividends = "[Fin 2, Fin 1.5]" and dividend_times = "[Fin 0.25, Fin 0.75]"]
  from inst h1 p
  have a: "fst (price_american_call_pde (?E\<lparr>ql_npv := strict_grid_engine\<rparr>) old_settings
          (Fin 100) (Fin 100) (Fin 0.05) (Fin 0.02) (Fin 1) (Fin 0.2) [Fin 2, Fin 1.5] [Fin 0.25, Fin 0.75])
     = Inr (Fin 100100)"
    by simp
  from inst h2 q
  have b: "fst (implied_volatility_american_call_pde (?E\<lparr>newton := defaults_only\<rparr>) old_settings
          (Fin 5) (Fin 100) (Fin 100) (Fin 0.05) (Fin 0.02) (Fin 1) [Fin 2, Fin 1.5] [Fin 0.25, Fin 0.75] (Fin 0.2))
     = Inr (Some (Fin 0.2))"
    by simp
  from a h2 b show ?thesis by blast
qed

text \<open>
  Claim C5 as stated fails: the functions have no parameter through which a caller
  could ask for a resolution, a budget or a tolerance. Over the engine that reports
  its resolution, the module's example is priced at 100 by 100, and no arguments make
  the pricer price at 50 by 200; over the root finder that reports its budget, no
  arguments make the solver run the root finder on a budget of 10 iterations.
\<close>

theorem control_parameters_counterexample:
  "fst (price_american_call_pde (stub_env any_window grid_engine one_shot) old_settings
          (Fin 100) (Fin 100) (Fin 0.05) (Fin 0.02) (Fin 1) (Fin 0.2) [Fin 2, Fin 1.5] [Fin 0.25, Fin 0.75])
     = Inr (Fin 100100)
   \<and> \<not> (\<exists>spot strike rate div_yield maturity volatility dividends dividend_times.
          fst (price_american_call_pde (stub_env any_window grid_engine one_shot) old_settings
                 spot strike rate div_yield maturity volatility dividends dividend_times)
            = Inr (Fin 50200))
   \<and> \<not> (\<exists>target_price spot strike rate div_yield maturity dividends dividend_times guess.
          fst (implied_volatility_american_call_pde (stub_env any_window grid_engine budget_probe)
                 old_settings target_price spot strike rate div_yield maturity dividends
                 dividend_times guess)
            = Inr (Some (Fin 10)))"
proof (intro conjI)
  show "fst (price_american_call_pde (stub_env any_window grid_engine one_shot) old_settings
          (Fin 100) (Fin 100) (Fin 0.05) (Fin 0.02) (Fin 1) (Fin 0.2) [Fin 2, Fin 1.5] [Fin 0.25, Fin 0.75])
     = Inr (Fin 100100)"
    by (simp add: price_american_call_pde_def Let_def date_after_def to_days_def stub_env_def
        any_window_def grid_engine_def)
next
  show "\<not> (\<exists>spot strike rate div_yield maturity volatility dividends dividend_times.
          fst (price_american_call_pde (stub_env any_window grid_engine one_shot) old_settings
                 spot strike rate div_yield maturity volatility dividends dividend_times)
            = Inr (Fin 50200))"
    by (auto simp: price_american_call_pde_def Let_def stub_env_def any_window_def grid_engine_def
        split: option.splits sum.splits)
next
  show "\<not> (\<exists>target_price spot strike rate div_yield maturity dividends dividend_times guess.
          fst (implied_volatility_american_call_pde (stub_env any_window grid_engine budget_probe)
                 old_settings target_price spot strike rate div_yield maturity dividends
                 dividend_times guess)
            = Inr (Some (Fin 10)))"
    by (simp add: implied_volatility_american_call_pde_def stub_env_def budget_probe_def
        no_options_def)
qed

end
